theory Spec2Isabelle
  imports Main "HOL-Library.Sublist"
begin

section \<open>Time values\<close>

text \<open>
  Schedule.tsx computes with values of the dayjs library, which is a dependency of the
  repository and not part of its sources. A \<open>Dayjs\<close> is an instant with millisecond
  resolution, or the invalid date that a failed parse yields (dayjs never throws).
  Instants are counted in milliseconds of local wall-clock time, every calendar day
  holding \<open>86400000\<close> of them (no daylight-saving shift); \<open>dayjs()\<close>, the current
  instant, is the parameter \<open>now\<close> of every definition that reads the clock.
\<close>

datatype Dayjs = Instant int | InvalidDate

datatype unit_of_time = Minutes | Hour

definition ms_per_day :: int where
  "ms_per_day = 86400000"

fun unit_ms :: "unit_of_time \<Rightarrow> int" where
  "unit_ms Minutes = 60000"
| "unit_ms Hour = 3600000"

text \<open>Modelled from the spec: \<open>addMinutes\<close> of section 4.1, dayjs's \<open>t.add(n, unit)\<close>,
  missing from the sources. The result may lie on the next day.\<close>

fun add :: "Dayjs \<Rightarrow> int \<Rightarrow> unit_of_time \<Rightarrow> Dayjs" where
  "add (Instant t) n u = Instant (t + n * unit_ms u)"
| "add InvalidDate n u = InvalidDate"

text \<open>Modelled from the spec: \<open>startOfDay\<close> and \<open>endOfDay\<close> of section 4.1, dayjs's
  \<open>t.startOf("day")\<close> and \<open>t.endOf("day")\<close>, missing from the sources: \<open>00:00:00.000\<close> of
  the day of \<open>t\<close>, and the last millisecond before the next day's \<open>00:00:00\<close>.\<close>

fun startOf_day :: "Dayjs \<Rightarrow> Dayjs" where
  "startOf_day (Instant t) = Instant (t - t mod ms_per_day)"
| "startOf_day InvalidDate = InvalidDate"

fun endOf_day :: "Dayjs \<Rightarrow> Dayjs" where
  "endOf_day (Instant t) = Instant (t - t mod ms_per_day + (ms_per_day - 1))"
| "endOf_day InvalidDate = InvalidDate"

text \<open>Modelled from the spec: \<open>isBefore\<close> and \<open>isAfter\<close> of section 4.1, dayjs's methods of
  the same names, missing from the sources: strict comparison of instants; a comparison
  with an invalid date is false.\<close>

fun isBefore :: "Dayjs \<Rightarrow> Dayjs \<Rightarrow> bool" where
  "isBefore (Instant a) (Instant b) = (a < b)"
| "isBefore _ _ = False"

fun isAfter :: "Dayjs \<Rightarrow> Dayjs \<Rightarrow> bool" where
  "isAfter (Instant a) (Instant b) = (b < a)"
| "isAfter _ _ = False"

subsection \<open>The text form \<open>HH:mm:ss\<close>\<close>

definition digit :: "nat \<Rightarrow> char" where
  "digit n = ''0123456789'' ! (n mod 10)"

definition digit_value :: "char \<Rightarrow> nat option" where
  "digit_value c = map_of (zip ''0123456789'' [0, 1, 2, 3, 4, 5, 6, 7, 8, 9]) c"

definition pad2 :: "nat \<Rightarrow> string" where
  "pad2 n = [digit (n div 10), digit n]"

definition two_digits :: "char \<Rightarrow> char \<Rightarrow> nat option" where
  "two_digits a b =
     (case (digit_value a, digit_value b) of
        (Some x, Some y) \<Rightarrow> Some (10 * x + y)
      | _ \<Rightarrow> None)"

text \<open>Modelled from the spec: \<open>format\<close> of section 4.1, dayjs's
  \<open>t.format("HH:mm:ss")\<close>, missing from the sources: the hour, minute and second of the
  instant within its day, two digits each; the date and the milliseconds are dropped.\<close>

fun format_HHmmss :: "Dayjs \<Rightarrow> string" where
  "format_HHmmss (Instant t) =
     (let ms = nat (t mod ms_per_day)
      in pad2 (ms div 3600000) @ '':'' @ pad2 (ms div 60000 mod 60) @ '':''
         @ pad2 (ms div 1000 mod 60))"
| "format_HHmmss InvalidDate = ''Invalid Date''"

fun parse_fields :: "string \<Rightarrow> (nat \<times> nat \<times> nat) option" where
  "parse_fields [h1, h2, c1, m1, m2, c2, s1, s2] =
     (if c1 = CHR '':'' \<and> c2 = CHR '':'' then
        (case (two_digits h1 h2, two_digits m1 m2, two_digits s1 s2) of
           (Some h, Some m, Some s) \<Rightarrow> Some (h, m, s)
         | _ \<Rightarrow> None)
      else None)"
| "parse_fields _ = None"

text \<open>Modelled from the spec: \<open>parse(text, strict)\<close> of section 4.1, dayjs's
  \<open>dayjs(text, "HH:mm:ss", true)\<close> with the customParseFormat plugin, missing from the
  sources: the text must be two-digit hour, minute and second of a real time of day; the
  result carries the current date (of \<open>now\<close>) and no milliseconds. Any other text gives
  the invalid date.\<close>

definition dayjs_strict :: "int \<Rightarrow> string \<Rightarrow> Dayjs" where
  "dayjs_strict now text =
     (case parse_fields text of
        Some (h, m, s) \<Rightarrow>
          (if h < 24 \<and> m < 60 \<and> s < 60
           then Instant (now - now mod ms_per_day
                         + (int h * 3600000 + int m * 60000 + int s * 1000))
           else InvalidDate)
      | None \<Rightarrow> InvalidDate)"

text \<open>A valid TimeOfDay of the spec (section 3) as the component holds one: an instant of
  the current day, at a whole second. The catalog holds such values, and so does every
  range whose ends were chosen from it or parsed.\<close>

definition valid_TimeOfDay :: "int \<Rightarrow> Dayjs \<Rightarrow> bool" where
  "valid_TimeOfDay now t =
     (case t of
        Instant a \<Rightarrow> a - a mod ms_per_day = now - now mod ms_per_day \<and> a mod 1000 = 0
      | InvalidDate \<Rightarrow> False)"

section \<open>Ranges and the form's field array\<close>

record TimeRange =
  start :: Dayjs
  end_time :: Dayjs

text \<open>The only exception the component can raise: reading a property of \<open>undefined\<close>.\<close>

datatype error = TypeError

text \<open>
  \<open>append\<close>, \<open>remove\<close> and \<open>replace\<close> of react-hook-form's \<open>useFieldArray\<close> (a dependency,
  not part of the sources), on the array \<open>fields\<close> of one day (\<open>flds\<close> below: the
  record package takes the name \<open>fields\<close>). As the library has them: \<open>append\<close> adds one
  value at the end; \<open>remove\<close> copies the array and splices one element out at \<open>index\<close>,
  and a JavaScript splice at or past the length removes nothing; \<open>replace\<close> sets the
  array to the one given. None of the three throws.
\<close>

definition append_fields :: "'a list \<Rightarrow> 'a \<Rightarrow> 'a list" where
  "append_fields flds v = flds @ [v]"

definition remove_fields :: "'a list \<Rightarrow> nat \<Rightarrow> 'a list" where
  "remove_fields flds index =
     (if index < length flds then take index flds @ drop (Suc index) flds
      else flds)"

definition replace_fields :: "'a list \<Rightarrow> 'a list \<Rightarrow> 'a list" where
  "replace_fields flds vs = vs"

subsection \<open>\<open>handleAppend\<close> (Schedule.tsx, lines 135 to 147)\<close>

definition nextRange :: "Dayjs \<Rightarrow> TimeRange" where
  "nextRange nextRangeStart =
     \<lparr>start = nextRangeStart, end_time = add nextRangeStart 1 Hour\<rparr>"

text \<open>
  \<open>fields[fields.length - 1]\<close> is \<open>undefined\<close> for an empty array, and reading its
  \<open>end\<close> throws a TypeError. Otherwise \<open>dayjs(...)\<close> of that end, a Dayjs already, is
  the same instant; the handler returns without appending when the next range ends after
  the end of the day of its start, and appends it if not.
\<close>

definition handleAppend :: "TimeRange list \<Rightarrow> error + TimeRange list" where
  "handleAppend flds =
     (case flds of
        [] \<Rightarrow> Inl TypeError
      | _ # _ \<Rightarrow>
          (let nextRangeStart = end_time (last flds)
           in if isAfter (end_time (nextRange nextRangeStart)) (endOf_day nextRangeStart)
              then Inr flds
              else Inr (append_fields flds (nextRange nextRangeStart))))"

text \<open>The class of the plus button (line 184): \<open>visible\<close> when the day has a range,
  \<open>invisible\<close> when it has none. Its \<open>onClick\<close> is \<open>handleAppend\<close> itself (line 186).\<close>

definition appendButtonVisible :: "TimeRange list \<Rightarrow> bool" where
  "appendButtonVisible flds = (length flds > 0)"

subsection \<open>The checkbox of a day (lines 153 to 158) and the remove buttons (lines 163 to 176)\<close>

definition defaultDayRange :: "int \<Rightarrow> TimeRange" where
  "defaultDayRange now =
     \<lparr>start = dayjs_strict now ''09:00:00'', end_time = dayjs_strict now ''17:00:00''\<rparr>"

definition checkbox_checked :: "TimeRange list \<Rightarrow> bool" where
  "checkbox_checked flds = (length flds > 0)"

text \<open>\<open>onChange\<close> of the checkbox; \<open>checked\<close> is \<open>e.target.checked\<close>, the state the box
  changes to.\<close>

definition checkbox_onChange :: "int \<Rightarrow> bool \<Rightarrow> TimeRange list \<Rightarrow> TimeRange list" where
  "checkbox_onChange now checked flds =
     (if checked then replace_fields flds [defaultDayRange now]
      else replace_fields flds [])"

text \<open>A click on the checkbox: the box is controlled by \<open>checked={fields.length > 0}\<close>, so
  the event carries the negation of what the box shows.\<close>

definition clickCheckbox :: "int \<Rightarrow> TimeRange list \<Rightarrow> TimeRange list" where
  "clickCheckbox now flds = checkbox_onChange now (\<not> checkbox_checked flds) flds"

text \<open>\<open>fields.map((field, index) => ...)\<close> renders one remove button per range, with the
  range's own index; its \<open>onClick\<close> is \<open>remove(index)\<close>.\<close>

definition removeButtons :: "TimeRange list \<Rightarrow> nat list" where
  "removeButtons flds = [0 ..< length flds]"

definition clickRemove :: "TimeRange list \<Rightarrow> nat \<Rightarrow> error + TimeRange list" where
  "clickRemove flds index = Inr (remove_fields flds index)"

section \<open>The catalog \<open>TIMES\<close> (lines 18 to 34)\<close>

definition increment :: int where
  "increment = 15"

text \<open>The \<open>while\<close> loop, with the array \<open>times\<close> it pushes to as the accumulator
  \<open>tms\<close>; \<open>end_of_day\<close> is the constant \<open>end\<close>.\<close>

function times_loop :: "Dayjs \<Rightarrow> Dayjs \<Rightarrow> Dayjs list \<Rightarrow> Dayjs list" where
  "times_loop end_of_day t tms =
     (if isBefore t end_of_day
      then times_loop end_of_day (add t increment Minutes) (tms @ [t])
      else tms)"
  by pat_completeness auto
termination
proof (relation "measure (\<lambda>(e, t, tms).
          case e of Instant b \<Rightarrow> (case t of Instant a \<Rightarrow> nat (b - a) | InvalidDate \<Rightarrow> 0)
                  | InvalidDate \<Rightarrow> 0)")
  show "wf (measure (\<lambda>(e, t, tms).
          case e of Instant b \<Rightarrow> (case t of Instant a \<Rightarrow> nat (b - a) | InvalidDate \<Rightarrow> 0)
                  | InvalidDate \<Rightarrow> 0))"
    by simp
next
  fix end_of_day t :: Dayjs and tms :: "Dayjs list"
  assume "isBefore t end_of_day"
  then obtain a b where "t = Instant a" "end_of_day = Instant b" "a < b"
    by (cases t; cases end_of_day) auto
  then show "((end_of_day, add t increment Minutes, tms @ [t]), end_of_day, t, tms)
        \<in> measure (\<lambda>(e, t, tms).
          case e of Instant b \<Rightarrow> (case t of Instant a \<Rightarrow> nat (b - a) | InvalidDate \<Rightarrow> 0)
                  | InvalidDate \<Rightarrow> 0)"
    by (simp add: increment_def)
qed

definition TIMES :: "int \<Rightarrow> Dayjs list" where
  "TIMES now = times_loop (endOf_day (Instant now)) (startOf_day (Instant now)) []"

text \<open>For stating what the catalog holds: the instant \<open>k\<close> quarters of an hour into the
  day of \<open>now\<close>.\<close>

definition slot :: "int \<Rightarrow> nat \<Rightarrow> Dayjs" where
  "slot now k = Instant (now - now mod ms_per_day + int k * 900000)"

section \<open>The selects of a range (\<open>TimeRangeField\<close>, lines 68 to 119)\<close>

record SelectOption =
  opt_label :: string
  opt_value :: string

text \<open>\<open>getOption\<close>: the value is the \<open>HH:mm:ss\<close> text; the label is the browser's
  \<open>toLocaleTimeString\<close> for \<open>nl-NL\<close>, taken as the parameter \<open>localeTime\<close>.\<close>

definition getOption :: "(Dayjs \<Rightarrow> string) \<Rightarrow> Dayjs \<Rightarrow> SelectOption" where
  "getOption localeTime time =
     \<lparr>opt_label = localeTime time, opt_value = format_HHmmss time\<rparr>"

text \<open>The predicate of \<open>TIMES.filter\<close> in \<open>timeOptions\<close>; an absent \<open>limit\<close> or \<open>offset\<close> is
  \<open>None\<close>, and a Dayjs object is never falsy. \<open>timeOptions\<close> takes the catalog it
  filters, the module's \<open>TIMES\<close>, as the parameter \<open>tms\<close>.\<close>

definition keepTime :: "Dayjs option \<Rightarrow> Dayjs option \<Rightarrow> Dayjs \<Rightarrow> bool" where
  "keepTime limit offset time =
     ((case limit of None \<Rightarrow> True | Some l \<Rightarrow> isBefore time l) \<and>
      (case offset of None \<Rightarrow> True | Some off \<Rightarrow> isAfter time off))"

definition timeOptions ::
  "(Dayjs \<Rightarrow> string) \<Rightarrow> Dayjs list \<Rightarrow> Dayjs option \<Rightarrow> Dayjs option \<Rightarrow> SelectOption list" where
  "timeOptions localeTime tms limit offset =
     map (getOption localeTime) (filter (keepTime limit offset) tms)"

text \<open>The spec's \<open>optionsFiltered\<close> (section 4.2), written from its words: the bound
  \<open>after\<close>, when given, keeps the elements strictly after it; then the bound \<open>before\<close>,
  when given, keeps the elements strictly before it.\<close>

definition spec_optionsFiltered :: "Dayjs list \<Rightarrow> Dayjs option \<Rightarrow> Dayjs option \<Rightarrow> Dayjs list" where
  "spec_optionsFiltered catalog after before =
     (let kept = (case after of None \<Rightarrow> catalog
                  | Some a \<Rightarrow> filter (\<lambda>t. isAfter t a) catalog)
      in case before of None \<Rightarrow> kept | Some b \<Rightarrow> filter (\<lambda>t. isBefore t b) kept)"

text \<open>The state \<open>options\<close> of a \<open>TimeRangeField\<close> after \<open>onFocus\<close> of the start select, after
  \<open>onFocus\<close> of the end select, and after \<open>onBlur\<close> of either; \<open>value\<close> in each
  \<open>Controller\<close> is the form's value of that select's own field.\<close>

definition onFocus_start ::
  "(Dayjs \<Rightarrow> string) \<Rightarrow> Dayjs list \<Rightarrow> TimeRange \<Rightarrow> SelectOption list" where
  "onFocus_start localeTime tms r = timeOptions localeTime tms None (Some (start r))"

definition onFocus_end ::
  "(Dayjs \<Rightarrow> string) \<Rightarrow> Dayjs list \<Rightarrow> TimeRange \<Rightarrow> SelectOption list" where
  "onFocus_end localeTime tms r = timeOptions localeTime tms None (Some (end_time r))"

definition onBlur :: "SelectOption list" where
  "onBlur = []"

section \<open>The default schedule (lines 37 to 50)\<close>

text \<open>
  \<open>defaultDayRange\<close> is one object; \<open>DEFAULT_SCHEDULE\<close> is an array of arrays of references
  to objects. The store maps a reference to the object it points to; evaluating the
  module allocates the one range object.
\<close>

type_synonym ref = nat

type_synonym store = "ref \<Rightarrow> TimeRange option"

definition defaultDayRange_ref :: ref where
  "defaultDayRange_ref = 0"

definition module_store :: "int \<Rightarrow> store" where
  "module_store now = Map.empty(defaultDayRange_ref \<mapsto> defaultDayRange now)"

definition DEFAULT_SCHEDULE :: "ref list list" where
  "DEFAULT_SCHEDULE =
     [[],
      [defaultDayRange_ref],
      [defaultDayRange_ref],
      [defaultDayRange_ref],
      [defaultDayRange_ref],
      [defaultDayRange_ref],
      []]"

text \<open>What a schedule holds under a store: every reference followed.\<close>

definition contents :: "store \<Rightarrow> ref list list \<Rightarrow> TimeRange option list list" where
  "contents h schedule = map (map h) schedule"

text \<open>The assignment \<open>range.start = v\<close> through a reference.\<close>

definition assign_start :: "store \<Rightarrow> ref \<Rightarrow> Dayjs \<Rightarrow> store" where
  "assign_start h r v = (case h r of None \<Rightarrow> h | Some x \<Rightarrow> h(r \<mapsto> x\<lparr>start := v\<rparr>))"

section \<open>Arithmetic of the day and parsed constants\<close>

lemma day_offset_mod:
  "0 \<le> c \<Longrightarrow> c < ms_per_day \<Longrightarrow> (now - now mod ms_per_day + c) mod ms_per_day = c"
proof -
  assume c: "0 \<le> c" "c < ms_per_day"
  have "(now - now mod ms_per_day + c) mod ms_per_day
        = ((now - now mod ms_per_day) mod ms_per_day + c mod ms_per_day) mod ms_per_day"
    by (simp only: mod_add_eq)
  also have "(now - now mod ms_per_day) mod ms_per_day = 0"
    by (simp add: minus_mod_eq_mult_div)
  finally show ?thesis using c by simp
qed

lemma day_offset_mod_num:
  "0 \<le> c \<Longrightarrow> c < 86400000 \<Longrightarrow> (now - now mod 86400000 + c) mod 86400000 = (c::int)"
  using day_offset_mod [of c now] by (simp add: ms_per_day_def)

lemmas parse_defs = dayjs_strict_def two_digits_def digit_value_def

lemma parse_2330: "dayjs_strict now ''23:30:00'' = Instant (now - now mod ms_per_day + 84600000)"
  by (simp add: parse_defs)

lemma parse_2345: "dayjs_strict now ''23:45:00'' = Instant (now - now mod ms_per_day + 85500000)"
  by (simp add: parse_defs)

lemma parse_0900: "dayjs_strict now ''09:00:00'' = Instant (now - now mod ms_per_day + 32400000)"
  by (simp add: parse_defs)

lemma parse_1700: "dayjs_strict now ''17:00:00'' = Instant (now - now mod ms_per_day + 61200000)"
  by (simp add: parse_defs)

lemma parse_1800: "dayjs_strict now ''18:00:00'' = Instant (now - now mod ms_per_day + 64800000)"
  by (simp add: parse_defs)

lemma add_60_minutes: "add t 60 Minutes = add t 1 Hour"
  by (cases t) simp_all

section \<open>Appending a range\<close>

text \<open>
  C1. For a day that has a range, the candidate that \<open>handleAppend\<close> builds starts at the
  end of the last range and ends 60 minutes later; when that end is after the end of the
  day of the last end, the handler returns the ranges as they were, without an error. The
  day \<open>[{23:30, 23:45}]\<close> is such a case, on every date.
\<close>

theorem handleAppend_rejects_overnight:
  "flds \<noteq> [] \<Longrightarrow>
     start (nextRange (end_time (last flds))) = end_time (last flds) \<and>
     end_time (nextRange (end_time (last flds))) = add (end_time (last flds)) 60 Minutes \<and>
     (isAfter (add (end_time (last flds)) 60 Minutes) (endOf_day (end_time (last flds)))
        \<longrightarrow> handleAppend flds = Inr flds) \<and>
     handleAppend [\<lparr>start = dayjs_strict now ''23:30:00'', end_time = dayjs_strict now ''23:45:00''\<rparr>]
       = Inr [\<lparr>start = dayjs_strict now ''23:30:00'', end_time = dayjs_strict now ''23:45:00''\<rparr>]"
proof -
  assume ne: "flds \<noteq> []"
  have ex: "handleAppend [\<lparr>start = dayjs_strict now ''23:30:00'', end_time = dayjs_strict now ''23:45:00''\<rparr>]
       = Inr [\<lparr>start = dayjs_strict now ''23:30:00'', end_time = dayjs_strict now ''23:45:00''\<rparr>]"
    by (simp add: handleAppend_def nextRange_def parse_2330 parse_2345 ms_per_day_def Let_def
          day_offset_mod_num)
  from ne obtain x xs where "flds = x # xs" by (cases flds) auto
  then have "isAfter (add (end_time (last flds)) 60 Minutes) (endOf_day (end_time (last flds)))
        \<longrightarrow> handleAppend flds = Inr flds"
    by (simp add: handleAppend_def nextRange_def add_60_minutes Let_def)
  with ex show ?thesis
    by (simp add: nextRange_def add_60_minutes)
qed

theorem handleAppend_rejects_overnight_witness:
  "[\<lparr>start = Instant 84600000, end_time = Instant 85500000\<rparr>] \<noteq> [] \<and>
   isAfter (add (Instant 85500000) 60 Minutes) (endOf_day (Instant 85500000)) \<and>
   start (nextRange (Instant 85500000)) = Instant 85500000 \<and>
   end_time (nextRange (Instant 85500000)) = Instant 89100000 \<and>
   handleAppend [\<lparr>start = Instant 84600000, end_time = Instant 85500000\<rparr>]
     = Inr [\<lparr>start = Instant 84600000, end_time = Instant 85500000\<rparr>]"
  using handleAppend_rejects_overnight
          [of "[\<lparr>start = Instant 84600000, end_time = Instant 85500000\<rparr>]" 0]
  by (simp add: ms_per_day_def)

text \<open>
  C2. For a day that has a range, whose last range ends at an instant \<open>e\<close> with 60 more
  minutes still inside the day of \<open>e\<close>, \<open>handleAppend\<close> returns the ranges with exactly
  one more at the end, from \<open>e\<close> to 60 minutes after \<open>e\<close>; the ranges before it are the
  old ones. The day \<open>[{09:00, 17:00}]\<close> becomes \<open>[{09:00, 17:00}, {17:00, 18:00}]\<close>.
\<close>

theorem handleAppend_appends_next_hour:
  "flds \<noteq> [] \<Longrightarrow> end_time (last flds) = Instant e \<Longrightarrow>
   e mod ms_per_day + 60 * 60000 < ms_per_day \<Longrightarrow>
     handleAppend flds
       = Inr (flds @ [\<lparr>start = Instant e, end_time = add (Instant e) 60 Minutes\<rparr>]) \<and>
     handleAppend [\<lparr>start = dayjs_strict now ''09:00:00'', end_time = dayjs_strict now ''17:00:00''\<rparr>]
       = Inr [\<lparr>start = dayjs_strict now ''09:00:00'', end_time = dayjs_strict now ''17:00:00''\<rparr>,
              \<lparr>start = dayjs_strict now ''17:00:00'', end_time = dayjs_strict now ''18:00:00''\<rparr>]"
proof -
  assume ne: "flds \<noteq> []" and e: "end_time (last flds) = Instant e"
    and fit: "e mod ms_per_day + 60 * 60000 < ms_per_day"
  have ex: "handleAppend [\<lparr>start = dayjs_strict now ''09:00:00'', end_time = dayjs_strict now ''17:00:00''\<rparr>]
       = Inr [\<lparr>start = dayjs_strict now ''09:00:00'', end_time = dayjs_strict now ''17:00:00''\<rparr>,
              \<lparr>start = dayjs_strict now ''17:00:00'', end_time = dayjs_strict now ''18:00:00''\<rparr>]"
    by (simp add: handleAppend_def nextRange_def append_fields_def parse_0900 parse_1700
          parse_1800 ms_per_day_def day_offset_mod_num Let_def)
  from ne obtain x xs where "flds = x # xs" by (cases flds) auto
  with e fit have "handleAppend flds
       = Inr (flds @ [\<lparr>start = Instant e, end_time = add (Instant e) 60 Minutes\<rparr>])"
    by (simp add: handleAppend_def nextRange_def append_fields_def)
  with ex show ?thesis by simp
qed

theorem handleAppend_appends_next_hour_witness:
  "[\<lparr>start = Instant 32400000, end_time = Instant 61200000\<rparr>] \<noteq> [] \<and>
   end_time (last [\<lparr>start = Instant 32400000, end_time = Instant 61200000\<rparr>]) = Instant 61200000 \<and>
   61200000 mod ms_per_day + 60 * 60000 < ms_per_day \<and>
   handleAppend [\<lparr>start = Instant 32400000, end_time = Instant 61200000\<rparr>]
     = Inr [\<lparr>start = Instant 32400000, end_time = Instant 61200000\<rparr>,
            \<lparr>start = Instant 61200000, end_time = Instant 64800000\<rparr>]"
  using handleAppend_appends_next_hour
          [of "[\<lparr>start = Instant 32400000, end_time = Instant 61200000\<rparr>]" 61200000 0]
  by (simp add: ms_per_day_def)

text \<open>
  The handler has no guard for a day without ranges: called on one, it does not return
  the empty day, it throws.
\<close>

theorem handleAppend_empty_raises: "handleAppend [] = Inl TypeError"
  by (simp add: handleAppend_def)

text \<open>
  C3, as the code has it. Appending to a day without ranges is not a silent return of the
  empty day. \<open>handleAppend\<close> throws a TypeError exactly when the day has no range, and
  returns some ranges exactly when it has one; the plus button is rendered invisible
  exactly for the days on which the handler throws.
\<close>

theorem handleAppend_raises_iff_hidden:
  "(handleAppend flds = Inl TypeError \<longleftrightarrow> flds = []) \<and>
   ((\<exists>flds'. handleAppend flds = Inr flds') \<longleftrightarrow> flds \<noteq> []) \<and>
   (appendButtonVisible flds \<longleftrightarrow> flds \<noteq> []) \<and>
   (handleAppend flds = Inl TypeError \<longleftrightarrow> \<not> appendButtonVisible flds)"
proof (cases flds)
  case Nil
  then show ?thesis
    by (simp add: handleAppend_def appendButtonVisible_def)
next
  case (Cons x xs)
  then show ?thesis
    by (simp add: handleAppend_def appendButtonVisible_def Let_def)
qed

section \<open>The default schedule\<close>

text \<open>
  Assigning the start of the range reached through bucket 1 changes what bucket 2 holds:
  the two buckets hold the same object.
\<close>

theorem default_schedule_mutation_shared:
  "contents (assign_start (module_store 0) (DEFAULT_SCHEDULE ! 1 ! 0) (Instant 36000000))
      DEFAULT_SCHEDULE ! 2
     \<noteq> contents (module_store 0) DEFAULT_SCHEDULE ! 2"
  by (simp add: contents_def assign_start_def module_store_def DEFAULT_SCHEDULE_def
      defaultDayRange_ref_def defaultDayRange_def parse_0900)

text \<open>
  C4, as the code has it. Buckets 0 and 6 of the default schedule are empty and buckets 1
  to 5 each hold exactly one range, from \<open>09:00:00\<close> to \<open>17:00:00\<close>. The five buckets hold
  the same reference, to the one object \<open>defaultDayRange\<close>: an assignment to the start of
  the range reached through bucket 1 shows in buckets 2 to 5 as well.
\<close>

theorem default_schedule_shared_seed:
  "contents (module_store now) DEFAULT_SCHEDULE
     = [[], [Some (defaultDayRange now)], [Some (defaultDayRange now)],
        [Some (defaultDayRange now)], [Some (defaultDayRange now)],
        [Some (defaultDayRange now)], []] \<and>
   format_HHmmss (start (defaultDayRange now)) = ''09:00:00'' \<and>
   format_HHmmss (end_time (defaultDayRange now)) = ''17:00:00'' \<and>
   DEFAULT_SCHEDULE ! 1 = DEFAULT_SCHEDULE ! 2 \<and> DEFAULT_SCHEDULE ! 2 = DEFAULT_SCHEDULE ! 3 \<and>
   DEFAULT_SCHEDULE ! 3 = DEFAULT_SCHEDULE ! 4 \<and> DEFAULT_SCHEDULE ! 4 = DEFAULT_SCHEDULE ! 5 \<and>
   contents (assign_start (module_store now) (DEFAULT_SCHEDULE ! 1 ! 0) v) DEFAULT_SCHEDULE
     = [[], [Some ((defaultDayRange now)\<lparr>start := v\<rparr>)], [Some ((defaultDayRange now)\<lparr>start := v\<rparr>)],
        [Some ((defaultDayRange now)\<lparr>start := v\<rparr>)], [Some ((defaultDayRange now)\<lparr>start := v\<rparr>)],
        [Some ((defaultDayRange now)\<lparr>start := v\<rparr>)], []]"
proof -
  have fmt: "format_HHmmss (start (defaultDayRange now)) = ''09:00:00''"
    "format_HHmmss (end_time (defaultDayRange now)) = ''17:00:00''"
    by (simp_all add: defaultDayRange_def parse_0900 parse_1700 ms_per_day_def
        day_offset_mod_num pad2_def digit_def)
  show ?thesis
    unfolding fmt
    by (simp add: contents_def assign_start_def module_store_def DEFAULT_SCHEDULE_def
        defaultDayRange_ref_def)
qed

section \<open>Enabling and disabling a day\<close>

text \<open>
  The handler with \<open>checked = true\<close> does not leave a day that has ranges as it is: it
  replaces them by the default range.
\<close>

theorem checkbox_enable_replaces:
  "checkbox_onChange 0 True
     [\<lparr>start = Instant 32400000, end_time = Instant 61200000\<rparr>,
      \<lparr>start = Instant 61200000, end_time = Instant 64800000\<rparr>]
   \<noteq> [\<lparr>start = Instant 32400000, end_time = Instant 61200000\<rparr>,
      \<lparr>start = Instant 61200000, end_time = Instant 64800000\<rparr>]"
  by (simp add: checkbox_onChange_def replace_fields_def)

text \<open>
  C5, as the code has it. With \<open>checked = true\<close> the checkbox's handler replaces the
  ranges of the day, whatever they were, by the one range \<open>09:00:00\<close> to \<open>17:00:00\<close>;
  with \<open>checked = false\<close> it replaces them by none. Both are idempotent. A click on the
  box of a day without ranges enables it, and a click on the box of a day with ranges
  disables it: the box never sends \<open>checked = true\<close> for a day that has ranges.
\<close>

theorem checkbox_enable_disable:
  "checkbox_onChange now True flds = [defaultDayRange now] \<and>
   map format_HHmmss [start (defaultDayRange now), end_time (defaultDayRange now)]
     = [''09:00:00'', ''17:00:00''] \<and>
   checkbox_onChange now False flds = [] \<and>
   checkbox_onChange now True (checkbox_onChange now True flds) = checkbox_onChange now True flds \<and>
   checkbox_onChange now False (checkbox_onChange now False flds) = checkbox_onChange now False flds \<and>
   clickCheckbox now [] = [defaultDayRange now] \<and>
   clickCheckbox now (r # rs) = []"
proof -
  have fmt: "map format_HHmmss [start (defaultDayRange now), end_time (defaultDayRange now)]
     = [''09:00:00'', ''17:00:00'']"
    by (simp add: defaultDayRange_def parse_0900 parse_1700 ms_per_day_def
        day_offset_mod_num pad2_def digit_def)
  show ?thesis
    unfolding fmt
    by (simp add: checkbox_onChange_def clickCheckbox_def checkbox_checked_def replace_fields_def)
qed

section \<open>Removing a range\<close>

text \<open>
  Removing at an index past the end raises nothing: the ranges come back as they were.
\<close>

theorem clickRemove_out_of_bounds:
  "clickRemove [\<lparr>start = Instant 32400000, end_time = Instant 61200000\<rparr>] 1
     = Inr [\<lparr>start = Instant 32400000, end_time = Instant 61200000\<rparr>]"
  by (simp add: clickRemove_def remove_fields_def)

text \<open>
  C6, as the code has it. Removing at an index below the length takes out exactly the
  range at that index: the result is one shorter, the ranges before the index keep their
  places and the ranges after it move down by one, in order. Removing at an index at or
  past the length returns the ranges unchanged and raises no error. The component renders
  a remove button for the indices below the length and for no other.
\<close>

theorem clickRemove_valid_index:
  "(index < length flds \<longrightarrow>
      (\<exists>flds'. clickRemove flds index = Inr flds' \<and>
         flds' = take index flds @ drop (Suc index) flds \<and>
         length flds' = length flds - 1 \<and>
         (\<forall>j. j < index \<longrightarrow> flds' ! j = flds ! j) \<and>
         (\<forall>j. index \<le> j \<and> j < length flds' \<longrightarrow> flds' ! j = flds ! Suc j))) \<and>
   (length flds \<le> index \<longrightarrow> clickRemove flds index = Inr flds) \<and>
   set (removeButtons flds) = {i. i < length flds}"
proof -
  have valid: "index < length flds \<Longrightarrow>
      length (take index flds @ drop (Suc index) flds) = length flds - 1 \<and>
      (\<forall>j. j < index \<longrightarrow> (take index flds @ drop (Suc index) flds) ! j = flds ! j) \<and>
      (\<forall>j. index \<le> j \<and> j < length (take index flds @ drop (Suc index) flds) \<longrightarrow>
            (take index flds @ drop (Suc index) flds) ! j = flds ! Suc j)"
    by (auto simp: nth_append min_def)
  show ?thesis
    using valid by (auto simp: clickRemove_def remove_fields_def removeButtons_def)
qed

theorem clickRemove_valid_index_witness:
  "(1::nat) < length [\<lparr>start = Instant 1, end_time = Instant 2\<rparr>,
      \<lparr>start = Instant 2, end_time = Instant 3\<rparr>, \<lparr>start = Instant 3, end_time = Instant 4\<rparr>] \<and>
   length [\<lparr>start = Instant 1, end_time = Instant 2\<rparr>] \<le> (4::nat) \<and>
   clickRemove
     [\<lparr>start = Instant 1, end_time = Instant 2\<rparr>, \<lparr>start = Instant 2, end_time = Instant 3\<rparr>,
      \<lparr>start = Instant 3, end_time = Instant 4\<rparr>] 1
     = Inr [\<lparr>start = Instant 1, end_time = Instant 2\<rparr>, \<lparr>start = Instant 3, end_time = Instant 4\<rparr>] \<and>
   clickRemove [\<lparr>start = Instant 1, end_time = Instant 2\<rparr>] 4
     = Inr [\<lparr>start = Instant 1, end_time = Instant 2\<rparr>]"
  using clickRemove_valid_index
          [of 1 "[\<lparr>start = Instant 1, end_time = Instant 2\<rparr>, \<lparr>start = Instant 2, end_time = Instant 3\<rparr>,
                   \<lparr>start = Instant 3, end_time = Instant 4\<rparr>]"]
        clickRemove_valid_index [of 4 "[\<lparr>start = Instant 1, end_time = Instant 2\<rparr>]"]
  by simp

section \<open>The catalog\<close>

lemma times_loop_slots:
  "k \<le> 96 \<Longrightarrow>
   times_loop (endOf_day (Instant now)) (slot now k) acc
     = acc @ map (slot now) [k ..< 96]"
proof (induction "96 - k" arbitrary: k acc)
  case 0
  then have k: "k = 96" by simp
  show ?case
    unfolding k by (subst times_loop.simps) (simp add: slot_def ms_per_day_def)
next
  case (Suc n)
  then have k: "k < 96" by simp
  then have before: "isBefore (slot now k) (endOf_day (Instant now))"
    by (simp add: slot_def ms_per_day_def)
  have step: "add (slot now k) increment Minutes = slot now (Suc k)"
    by (simp add: slot_def increment_def algebra_simps)
  have "times_loop (endOf_day (Instant now)) (slot now k) acc
        = times_loop (endOf_day (Instant now)) (slot now (Suc k)) (acc @ [slot now k])"
    by (subst times_loop.simps) (simp only: before step if_True)
  also have "\<dots> = (acc @ [slot now k]) @ map (slot now) [Suc k ..< 96]"
    using Suc.hyps(1) [of "Suc k"] Suc.hyps(2) k by simp
  also have "\<dots> = acc @ map (slot now) [k ..< 96]"
    using k by (simp add: upt_conv_Cons)
  finally show ?case .
qed

lemma TIMES_slots: "TIMES now = map (slot now) [0 ..< 96]"
  using times_loop_slots [of 0 now "[]"] by (simp add: TIMES_def slot_def)

lemma format_slot:
  "k < 96 \<Longrightarrow> format_HHmmss (slot now k)
     = pad2 (k div 4) @ '':'' @ pad2 (k mod 4 * 15) @ '':00''"
proof -
  assume k: "k < 96"
  have "(now - now mod ms_per_day + int k * 900000) mod ms_per_day = int k * 900000"
    using k by (intro day_offset_mod) (simp_all add: ms_per_day_def)
  then have ms: "nat ((now - now mod ms_per_day + int k * 900000) mod ms_per_day) = k * 900000"
    by (simp add: nat_mult_distrib)
  have h: "k * 900000 div 3600000 = k div 4" by simp
  have m: "k * 900000 div 60000 mod 60 = k mod 4 * 15"
  proof -
    have "k * 900000 div 60000 = k * 15" by simp
    moreover have "15 * (k mod 4) = 15 * k mod (15 * 4)"
      by (rule mult_mod_right)
    ultimately show ?thesis by (simp add: mult.commute)
  qed
  have s: "k * 900000 div 1000 mod 60 = 0"
  proof -
    have "k * 900000 div 1000 = k * 15 * 60" by simp
    then show ?thesis by simp
  qed
  show ?thesis
    by (simp only: slot_def format_HHmmss.simps Let_def ms h m s)
      (simp add: pad2_def digit_def)
qed

lemma TIMES_length: "length (TIMES now) = 96"
  by (simp add: TIMES_slots)

lemma TIMES_hd: "hd (TIMES now) = slot now 0"
proof -
  have "[0 ..< 96] = 0 # [Suc 0 ..< 96]" by (rule upt_conv_Cons) simp
  then show ?thesis by (simp only: TIMES_slots list.map list.sel)
qed

lemma TIMES_last: "last (TIMES now) = slot now 95"
proof -
  have "[0 ..< 96] = [0 ..< 95] @ [95]"
    using upt_Suc_append [of 0 95] by simp
  then show ?thesis by (simp only: TIMES_slots map_append list.map last_snoc)
qed

lemma TIMES_spacing: "tl (TIMES now) = map (\<lambda>t. add t 15 Minutes) (butlast (TIMES now))"
proof -
  have tl: "tl (TIMES now) = map (slot now) [Suc 0 ..< Suc 95]"
    by (simp only: TIMES_slots map_tl [symmetric] tl_upt) simp
  have "[0 ..< 96] = [0 ..< 95] @ [95]"
    using upt_Suc_append [of 0 95] by simp
  then have bl: "butlast (TIMES now) = map (slot now) [0 ..< 95]"
    by (simp only: TIMES_slots map_append list.map butlast_snoc)
  have "map (\<lambda>t. add t 15 Minutes) (map (slot now) [0 ..< 95])
          = map (slot now) (map Suc [0 ..< 95])"
    by (simp add: slot_def algebra_simps del: upt_Suc)
  also have "\<dots> = map (slot now) [Suc 0 ..< Suc 95]"
    by (simp only: map_Suc_upt)
  finally show ?thesis
    by (simp only: tl bl)
qed

lemma TIMES_increasing: "sorted_wrt isBefore (TIMES now)"
proof -
  have "sorted_wrt (\<lambda>a b. isBefore (slot now a) (slot now b)) [0 ..< 96]"
    by (rule sorted_wrt_mono_rel [OF _ sorted_wrt_upt]) (simp add: slot_def)
  then show ?thesis
    by (simp only: TIMES_slots sorted_wrt_map)
qed

lemma TIMES_closed_form:
  "TIMES now = map (\<lambda>k. add (startOf_day (Instant now)) (15 * int k) Minutes) [0 ..< 96]"
  unfolding TIMES_slots by (rule map_cong [OF refl]) (simp add: slot_def)

text \<open>
  C7. The catalog, built from \<open>00:00:00\<close> of the current day by adding 15 minutes while
  the running value is strictly before the end of the day, has exactly 96 elements; the
  first is \<open>00:00:00\<close> and the last \<open>23:45:00\<close>; every element but the first is its
  predecessor plus 15 minutes, and the sequence is strictly increasing.
\<close>

theorem TIMES_catalog:
  "length (TIMES now) = 96 \<and>
   hd (TIMES now) = startOf_day (Instant now) \<and>
   format_HHmmss (hd (TIMES now)) = ''00:00:00'' \<and>
   format_HHmmss (last (TIMES now)) = ''23:45:00'' \<and>
   tl (TIMES now) = map (\<lambda>t. add t 15 Minutes) (butlast (TIMES now)) \<and>
   sorted_wrt isBefore (TIMES now) \<and>
   TIMES now = map (\<lambda>k. add (startOf_day (Instant now)) (15 * int k) Minutes) [0 ..< 96]"
proof -
  have a: "hd (TIMES now) = startOf_day (Instant now)"
    by (simp add: TIMES_hd slot_def)
  have b: "format_HHmmss (hd (TIMES now)) = ''00:00:00''"
    unfolding TIMES_hd using format_slot [of 0 now] by (simp add: pad2_def digit_def)
  have c: "format_HHmmss (last (TIMES now)) = ''23:45:00''"
    unfolding TIMES_last using format_slot [of 95 now] by (simp add: pad2_def digit_def)
  from TIMES_length a b c TIMES_spacing TIMES_increasing TIMES_closed_form
  show ?thesis by (intro conjI)
qed

section \<open>Filtering the catalog\<close>

lemma spec_optionsFiltered_filter:
  "spec_optionsFiltered tms offset limit = filter (keepTime limit offset) tms"
  by (cases offset; cases limit) (auto simp: spec_optionsFiltered_def keepTime_def intro: filter_cong)

lemma isAfter_Instant: "isAfter t (Instant a) \<Longrightarrow> \<exists>x. t = Instant x \<and> a < x"
  by (cases t) simp_all

lemma isBefore_Instant: "isBefore t (Instant b) \<Longrightarrow> \<exists>x. t = Instant x \<and> x < b"
  by (cases t) simp_all

text \<open>
  C8. For every catalog and every pair of optional bounds, \<open>timeOptions\<close> returns the
  options of the spec's \<open>optionsFiltered\<close>: a subsequence of the catalog, holding exactly
  the elements strictly after \<open>offset\<close> (when given) and strictly before \<open>limit\<close> (when
  given), each bound applied on its own; without bounds it is the whole catalog. With an
  instant as the lower bound no kept element is at or before it, and with an instant as
  the upper bound no kept element is at or after it.
\<close>

theorem timeOptions_filtered:
  "timeOptions localeTime tms limit offset
     = map (getOption localeTime) (spec_optionsFiltered tms offset limit) \<and>
   subseq (spec_optionsFiltered tms offset limit) tms \<and>
   (\<forall>t. t \<in> set (spec_optionsFiltered tms offset limit) \<longleftrightarrow>
      t \<in> set tms \<and> (\<forall>a. offset = Some a \<longrightarrow> isAfter t a)
                 \<and> (\<forall>b. limit = Some b \<longrightarrow> isBefore t b)) \<and>
   timeOptions localeTime tms None None = map (getOption localeTime) tms \<and>
   (\<forall>t \<in> set (spec_optionsFiltered tms (Some (Instant a)) limit). \<exists>x. t = Instant x \<and> a < x) \<and>
   (\<forall>t \<in> set (spec_optionsFiltered tms offset (Some (Instant b))). \<exists>x. t = Instant x \<and> x < b)"
proof -
  have eq: "timeOptions localeTime tms limit offset
     = map (getOption localeTime) (spec_optionsFiltered tms offset limit)"
    by (simp add: timeOptions_def spec_optionsFiltered_filter)
  have sub: "subseq (spec_optionsFiltered tms offset limit) tms"
    by (simp add: spec_optionsFiltered_filter)
  have mem: "\<forall>t. t \<in> set (spec_optionsFiltered tms offset limit) \<longleftrightarrow>
      t \<in> set tms \<and> (\<forall>a. offset = Some a \<longrightarrow> isAfter t a)
                 \<and> (\<forall>b. limit = Some b \<longrightarrow> isBefore t b)"
    by (auto simp: spec_optionsFiltered_filter keepTime_def split: option.splits)
  have full: "timeOptions localeTime tms None None = map (getOption localeTime) tms"
    by (simp add: timeOptions_def keepTime_def)
  have lo: "\<forall>t \<in> set (spec_optionsFiltered tms (Some (Instant a)) limit). \<exists>x. t = Instant x \<and> a < x"
    by (auto simp: spec_optionsFiltered_filter keepTime_def dest: isAfter_Instant)
  have hi: "\<forall>t \<in> set (spec_optionsFiltered tms offset (Some (Instant b))). \<exists>x. t = Instant x \<and> x < b"
    by (auto simp: spec_optionsFiltered_filter keepTime_def dest: isBefore_Instant)
  from eq sub mem full lo hi show ?thesis by (intro conjI)
qed

theorem timeOptions_filtered_witness:
  "timeOptions (\<lambda>t. []) [Instant 1, Instant 5, Instant 9] (Some (Instant 9)) (Some (Instant 1))
     = [getOption (\<lambda>t. []) (Instant 5)] \<and>
   Instant 5 \<in> set [Instant 1, Instant 5, Instant 9] \<and>
   isAfter (Instant 5) (Instant 1) \<and> isBefore (Instant 5) (Instant 9) \<and>
   Instant 5 \<in> set (spec_optionsFiltered [Instant 1, Instant 5, Instant 9]
                       (Some (Instant 1)) (Some (Instant 9))) \<and>
   Instant 1 \<notin> set (spec_optionsFiltered [Instant 1, Instant 5, Instant 9]
                       (Some (Instant 1)) (Some (Instant 9))) \<and>
   Instant 9 \<notin> set (spec_optionsFiltered [Instant 1, Instant 5, Instant 9]
                       (Some (Instant 1)) (Some (Instant 9)))"
  using timeOptions_filtered
          [of "\<lambda>t. []" "[Instant 1, Instant 5, Instant 9]" "Some (Instant 9)" "Some (Instant 1)" 1 9]
  by (simp add: spec_optionsFiltered_def)

section \<open>Formatting and parsing\<close>

lemma digit_value_digit: "digit_value (digit n) = Some (n mod 10)"
proof -
  define k where "k = n mod 10"
  then have "k < 10" by simp
  then have "k = 0 \<or> k = 1 \<or> k = 2 \<or> k = 3 \<or> k = 4 \<or> k = 5 \<or> k = 6 \<or> k = 7 \<or> k = 8 \<or> k = 9"
    by arith
  then have "digit_value (''0123456789'' ! k) = Some k"
    by (auto simp: digit_value_def)
  then show ?thesis
    by (simp add: digit_def k_def)
qed

lemma two_digits_pad2: "n < 100 \<Longrightarrow> two_digits (digit (n div 10)) (digit n) = Some n"
  by (simp add: two_digits_def digit_value_digit)

lemma parse_fields_pad2:
  "h < 100 \<Longrightarrow> m < 100 \<Longrightarrow> s < 100 \<Longrightarrow>
   parse_fields [digit (h div 10), digit h, CHR '':'', digit (m div 10), digit m, CHR '':'',
                 digit (s div 10), digit s] = Some (h, m, s)"
  by (simp add: two_digits_pad2)

lemma seconds_split:
  fixes q :: nat
  shows "q div 3600 * 3600 + q div 60 mod 60 * 60 + q mod 60 = q"
proof -
  have a: "q div 3600 = q div 60 div 60"
    by (simp add: div_mult2_eq)
  have b: "q div 60 div 60 * 60 + q div 60 mod 60 = q div 60"
    by (rule div_mult_mod_eq)
  have c: "q div 60 * 60 + q mod 60 = q"
    by (rule div_mult_mod_eq)
  show ?thesis
    unfolding a using b c by linarith
qed

lemma fields_of_ms:
  fixes ms :: nat
  shows "ms div 3600000 * 3600000 + ms div 60000 mod 60 * 60000 + ms div 1000 mod 60 * 1000
           = ms div 1000 * 1000"
proof -
  have a: "ms div 3600000 = ms div 1000 div 3600" and b: "ms div 60000 = ms div 1000 div 60"
    by (simp_all add: div_mult2_eq)
  show ?thesis
    unfolding a b using seconds_split [of "ms div 1000"] by simp
qed

lemma parse_format:
  "dayjs_strict now (format_HHmmss (Instant a))
     = Instant (now - now mod ms_per_day + int (nat (a mod ms_per_day) div 1000 * 1000))"
proof -
  define ms where "ms = nat (a mod ms_per_day)"
  have ms: "ms < 86400000"
    by (simp add: ms_def ms_per_day_def nat_less_iff)
  then have h: "ms div 3600000 < 24" by simp
  have "parse_fields (format_HHmmss (Instant a))
          = Some (ms div 3600000, ms div 60000 mod 60, ms div 1000 mod 60)"
    using h by (simp add: ms_def [symmetric] Let_def pad2_def parse_fields_pad2
        del: parse_fields.simps)
  then have "dayjs_strict now (format_HHmmss (Instant a))
     = Instant (now - now mod ms_per_day
         + int (ms div 3600000 * 3600000 + ms div 60000 mod 60 * 60000 + ms div 1000 mod 60 * 1000))"
    using h by (simp add: dayjs_strict_def)
  then show ?thesis
    by (simp only: fields_of_ms ms_def)
qed

lemma whole_seconds_div:
  fixes ms :: nat
  shows "ms div 1000 * 1000 div 3600000 = ms div 3600000"
    and "ms div 1000 * 1000 div 60000 = ms div 60000"
    and "ms div 1000 * 1000 div 1000 = ms div 1000"
proof -
  have "ms div 1000 * 1000 div (1000 * 3600) = ms div (1000 * 3600)"
    by (simp only: div_mult2_eq nonzero_mult_div_cancel_right)
  then show "ms div 1000 * 1000 div 3600000 = ms div 3600000" by simp
  have "ms div 1000 * 1000 div (1000 * 60) = ms div (1000 * 60)"
    by (simp only: div_mult2_eq nonzero_mult_div_cancel_right)
  then show "ms div 1000 * 1000 div 60000 = ms div 60000" by simp
  show "ms div 1000 * 1000 div 1000 = ms div 1000" by simp
qed

lemma start_of_day_dvd: "1000 dvd (now - now mod ms_per_day)"
proof -
  have "now - now mod ms_per_day = ms_per_day * (now div ms_per_day)"
    by (simp add: minus_mod_eq_mult_div)
  moreover have "(1000::int) dvd ms_per_day"
    by (simp add: ms_per_day_def)
  ultimately show ?thesis by simp
qed

lemma parse_format_offset:
  "0 \<le> int (nat (a mod ms_per_day) div 1000 * 1000) \<and>
   int (nat (a mod ms_per_day) div 1000 * 1000) < ms_per_day"
proof -
  have "nat (a mod ms_per_day) div 1000 * 1000 \<le> nat (a mod ms_per_day)"
    by simp
  moreover have "int (nat (a mod ms_per_day)) < ms_per_day"
    by (simp add: ms_per_day_def)
  ultimately show ?thesis by linarith
qed

lemma parse_format_valid: "valid_TimeOfDay now (dayjs_strict now (format_HHmmss (Instant a)))"
proof -
  define y where "y = int (nat (a mod ms_per_day) div 1000 * 1000)"
  have y: "0 \<le> y" "y < ms_per_day"
    using parse_format_offset [of a] by (simp_all add: y_def)
  have day: "(now - now mod ms_per_day + y) mod ms_per_day = y"
    using y by (rule day_offset_mod)
  have "1000 dvd y"
    by (simp add: y_def)
  then have "1000 dvd (now - now mod ms_per_day + y)"
    using start_of_day_dvd [of now] by (rule dvd_add [rotated])
  then have sec: "(now - now mod ms_per_day + y) mod 1000 = 0"
    by (simp only: mod_eq_0_iff_dvd)
  show ?thesis
    unfolding parse_format y_def [symmetric]
    by (simp add: valid_TimeOfDay_def day sec)
qed

lemma format_parse_format:
  "format_HHmmss (dayjs_strict now (format_HHmmss (Instant a))) = format_HHmmss (Instant a)"
proof -
  define ms where "ms = nat (a mod ms_per_day)"
  have day: "(now - now mod ms_per_day + int (ms div 1000 * 1000)) mod ms_per_day
               = int (ms div 1000 * 1000)"
    using parse_format_offset [of a] unfolding ms_def by (intro day_offset_mod) simp_all
  show ?thesis
    unfolding parse_format ms_def [symmetric]
    by (simp only: format_HHmmss.simps day nat_int Let_def whole_seconds_div ms_def [symmetric])
qed

lemma parse_format_same:
  assumes "valid_TimeOfDay now t"
  shows "dayjs_strict now (format_HHmmss t) = t"
proof -
  from assms obtain a where t: "t = Instant a"
    and day: "a - a mod ms_per_day = now - now mod ms_per_day" and sec: "a mod 1000 = 0"
    by (cases t) (simp_all add: valid_TimeOfDay_def)
  have "(1000::int) dvd ms_per_day"
    by (simp add: ms_per_day_def)
  then have "a mod ms_per_day mod 1000 = a mod 1000"
    by (rule mod_mod_cancel)
  moreover have "nat (a mod ms_per_day mod 1000) = nat (a mod ms_per_day) mod nat 1000"
    by (rule nat_mod_distrib) (simp_all add: ms_per_day_def)
  ultimately have "nat (a mod ms_per_day) mod 1000 = 0"
    using sec by simp
  then have "nat (a mod ms_per_day) div 1000 * 1000 = nat (a mod ms_per_day)"
    using div_mult_mod_eq [of "nat (a mod ms_per_day)" 1000] by simp
  then have "int (nat (a mod ms_per_day) div 1000 * 1000) = a mod ms_per_day"
    by (simp add: ms_per_day_def)
  then show ?thesis
    unfolding t parse_format day [symmetric] by simp
qed

text \<open>
  C9. For every valid TimeOfDay \<open>t\<close>, the strict parse of the text \<open>HH:mm:ss\<close> that
  formatting \<open>t\<close> gives succeeds and returns \<open>t\<close>. For any instant at all, of any day
  and with any milliseconds, the parse of its text succeeds, returns a valid TimeOfDay
  and keeps the text.
\<close>

theorem parse_format_roundtrip:
  "(valid_TimeOfDay now t \<longrightarrow> dayjs_strict now (format_HHmmss t) = t) \<and>
   valid_TimeOfDay now (dayjs_strict now (format_HHmmss (Instant a))) \<and>
   format_HHmmss (dayjs_strict now (format_HHmmss (Instant a))) = format_HHmmss (Instant a)"
  using parse_format_same [of now t] parse_format_valid [of now a] format_parse_format [of now a]
  by blast

theorem parse_format_roundtrip_witness:
  "valid_TimeOfDay 1000000000123 (Instant 1000054800000) \<and>
   format_HHmmss (Instant 1000054800000) = ''17:00:00'' \<and>
   dayjs_strict 1000000000123 ''17:00:00'' = Instant 1000054800000"
proof -
  have v: "valid_TimeOfDay 1000000000123 (Instant 1000054800000)"
    by (simp add: valid_TimeOfDay_def ms_per_day_def)
  have f: "format_HHmmss (Instant 1000054800000) = ''17:00:00''"
    by (simp add: ms_per_day_def pad2_def digit_def)
  from v f parse_format_roundtrip [of 1000000000123 "Instant 1000054800000" 0]
  show ?thesis by simp
qed

section \<open>The options of the two selects\<close>

lemma filter_greater_upt: "filter (\<lambda>k. c < k) [0 ..< n] = [Suc c ..< n]"
  by (induction n) auto

lemma TIMES_after_slot:
  "c < 96 \<Longrightarrow> filter (\<lambda>t. isAfter t (slot now c)) (TIMES now) = map (slot now) [Suc c ..< 96]"
proof -
  have "filter (\<lambda>t. isAfter t (slot now c)) (map (slot now) [0 ..< 96])
          = map (slot now) (filter (\<lambda>k. c < k) [0 ..< 96])"
    by (simp only: filter_map) (simp add: comp_def slot_def)
  then show ?thesis
    by (simp only: TIMES_slots filter_greater_upt)
qed

lemma values_of_slots:
  "n \<le> 96 \<Longrightarrow> map opt_value (map (getOption localeTime) (map (slot now) [m ..< n]))
     = map (\<lambda>k. pad2 (k div 4) @ '':'' @ pad2 (k mod 4 * 15) @ '':00'') [m ..< n]"
  by (simp add: getOption_def format_slot comp_def del: append.simps)

lemma quarter_texts_after_17:
  "map (\<lambda>k. pad2 (k div 4) @ '':'' @ pad2 (k mod 4 * 15) @ '':00'') [69 ..< 96]
     = [''17:15:00'', ''17:30:00'', ''17:45:00'', ''18:00:00'', ''18:15:00'', ''18:30:00'',
        ''18:45:00'', ''19:00:00'', ''19:15:00'', ''19:30:00'', ''19:45:00'', ''20:00:00'',
        ''20:15:00'', ''20:30:00'', ''20:45:00'', ''21:00:00'', ''21:15:00'', ''21:30:00'',
        ''21:45:00'', ''22:00:00'', ''22:15:00'', ''22:30:00'', ''22:45:00'', ''23:00:00'',
        ''23:15:00'', ''23:30:00'', ''23:45:00'']"
  by code_simp

lemma slot_1700: "dayjs_strict now ''17:00:00'' = slot now 68"
  by (simp add: parse_1700 slot_def)

lemma slot_0900: "dayjs_strict now ''09:00:00'' = slot now 36"
  by (simp add: parse_0900 slot_def)

text \<open>
  C10. On focus, the start select and the end select each set the options to the catalog
  filtered strictly after that select's own value, with no upper bound: neither passes
  \<open>limit\<close>. The options of the end select do not depend on the start of the range: for
  the range \<open>09:00:00\<close> to \<open>17:00:00\<close> they are \<open>17:15:00\<close> to \<open>23:45:00\<close>, and the
  options of its start select run to \<open>23:45:00\<close>, past the end of the range.
\<close>

theorem selects_offer_after_own_value:
  "onFocus_start localeTime tms r
     = map (getOption localeTime) (filter (\<lambda>t. isAfter t (start r)) tms) \<and>
   onFocus_end localeTime tms r
     = map (getOption localeTime) (filter (\<lambda>t. isAfter t (end_time r)) tms) \<and>
   onFocus_start localeTime tms r
     = map (getOption localeTime) (spec_optionsFiltered tms (Some (start r)) None) \<and>
   onFocus_end localeTime tms r
     = map (getOption localeTime) (spec_optionsFiltered tms (Some (end_time r)) None) \<and>
   onFocus_end localeTime tms (r\<lparr>start := s\<rparr>) = onFocus_end localeTime tms r \<and>
   map opt_value (onFocus_end localeTime (TIMES now) (defaultDayRange now))
     = [''17:15:00'', ''17:30:00'', ''17:45:00'', ''18:00:00'', ''18:15:00'', ''18:30:00'',
        ''18:45:00'', ''19:00:00'', ''19:15:00'', ''19:30:00'', ''19:45:00'', ''20:00:00'',
        ''20:15:00'', ''20:30:00'', ''20:45:00'', ''21:00:00'', ''21:15:00'', ''21:30:00'',
        ''21:45:00'', ''22:00:00'', ''22:15:00'', ''22:30:00'', ''22:45:00'', ''23:00:00'',
        ''23:15:00'', ''23:30:00'', ''23:45:00''] \<and>
   last (map opt_value (onFocus_start localeTime (TIMES now) (defaultDayRange now)))
     = ''23:45:00''"
proof -
  have kt: "keepTime None (Some a) = (\<lambda>t. isAfter t a)" for a
    by (rule ext) (simp add: keepTime_def)
  have a: "onFocus_start localeTime tms r
     = map (getOption localeTime) (filter (\<lambda>t. isAfter t (start r)) tms)"
    by (simp add: onFocus_start_def timeOptions_def kt)
  have b: "onFocus_end localeTime tms r
     = map (getOption localeTime) (filter (\<lambda>t. isAfter t (end_time r)) tms)" for r
    by (simp add: onFocus_end_def timeOptions_def kt)
  have c: "onFocus_start localeTime tms r
     = map (getOption localeTime) (spec_optionsFiltered tms (Some (start r)) None)"
    by (simp add: a spec_optionsFiltered_def)
  have d: "onFocus_end localeTime tms r
     = map (getOption localeTime) (spec_optionsFiltered tms (Some (end_time r)) None)"
    by (simp add: b spec_optionsFiltered_def)
  have e: "onFocus_end localeTime tms (r\<lparr>start := s\<rparr>) = onFocus_end localeTime tms r"
    by (simp add: b)
  have "onFocus_end localeTime (TIMES now) (defaultDayRange now)
          = map (getOption localeTime) (map (slot now) [Suc 68 ..< 96])"
    by (simp add: onFocus_end_def timeOptions_def kt defaultDayRange_def slot_1700
        TIMES_after_slot del: upt_Suc)
  then have f: "map opt_value (onFocus_end localeTime (TIMES now) (defaultDayRange now))
     = map (\<lambda>k. pad2 (k div 4) @ '':'' @ pad2 (k mod 4 * 15) @ '':00'') [69 ..< 96]"
    using values_of_slots [of 96 localeTime now 69] by simp
  have "onFocus_start localeTime (TIMES now) (defaultDayRange now)
          = map (getOption localeTime) (map (slot now) [Suc 36 ..< 96])"
    by (simp add: onFocus_start_def timeOptions_def kt defaultDayRange_def slot_0900
        TIMES_after_slot del: upt_Suc)
  also have "[Suc 36 ..< 96] = [37 ..< 95] @ [95]"
    using upt_Suc_append [of 37 95] by simp
  finally have g: "last (map opt_value (onFocus_start localeTime (TIMES now) (defaultDayRange now)))
     = ''23:45:00''"
    using format_slot [of 95 now] by (simp add: getOption_def pad2_def digit_def)
  from a b [of r] c d e f g show ?thesis
    unfolding quarter_texts_after_17 by (intro conjI)
qed

end
